theory Spec2Isabelle
  imports Main
begin

section \<open>JavaScript values\<close>

text \<open>
  The settings editor (app-settings-editor.js) stores booleans, integers and strings in
  its fields, receives JSON from the server and keeps arrays and objects of observables
  for its tabs and for the nested settings tree. \<open>JObs v\<close> is a knockout observable
  holding \<open>v\<close>. Numbers are the integers the settings use.
\<close>

datatype jsval =
    JUndef
  | JNull
  | JBool bool
  | JNum int
  | JStr string
  | JArr "jsval list"
  | JObj "(string \<times> jsval) list"
  | JObs jsval

type_synonym obj = "(string \<times> jsval) list"

datatype error = TypeError | Unmodelled

text \<open>JavaScript truthiness, as used by \<open>if (x)\<close>, \<open>x && y\<close> and \<open>!x\<close>.\<close>

fun truthy :: "jsval \<Rightarrow> bool" where
  "truthy JUndef = False"
| "truthy JNull = False"
| "truthy (JBool b) = b"
| "truthy (JNum n) = (n \<noteq> 0)"
| "truthy (JStr s) = (s \<noteq> [])"
| "truthy (JArr xs) = True"
| "truthy (JObj kvs) = True"
| "truthy (JObs v) = True"

text \<open>
  \<open>a === b\<close> where \<open>b\<close> is a primitive literal or a string, the only use the source
  makes of strict equality: same type and same value.
\<close>

definition strict_eq :: "jsval \<Rightarrow> jsval \<Rightarrow> bool" where
  "strict_eq a b = (a = b)"

text \<open>Reading and writing an own property of a plain object; key order is insertion order.\<close>

definition get_prop :: "obj \<Rightarrow> string \<Rightarrow> jsval" where
  "get_prop kvs k = (case map_of kvs k of None \<Rightarrow> JUndef | Some v \<Rightarrow> v)"

fun set_prop :: "string \<Rightarrow> jsval \<Rightarrow> obj \<Rightarrow> obj" where
  "set_prop k v [] = [(k, v)]"
| "set_prop k v ((k', v') # kvs) =
     (if k' = k then (k, v) # kvs else (k', v') # set_prop k v kvs)"

text \<open>
  \<open>$.extend(target, options)\<close>: a null or undefined \<open>options\<close> is skipped; otherwise
  every entry of \<open>options\<close> is written into \<open>target\<close> itself, except an entry whose
  value is undefined and the key \<open>__proto__\<close>, which never becomes an own entry.
\<close>

fun extend_loop :: "obj \<Rightarrow> obj \<Rightarrow> obj" where
  "extend_loop target [] = target"
| "extend_loop target ((name, copy) # rest) =
     extend_loop
       (if name = ''__proto__'' \<or> copy = JUndef then target else set_prop name copy target)
       rest"

definition jq_extend :: "obj \<Rightarrow> obj option \<Rightarrow> obj" where
  "jq_extend target options = (case options of None \<Rightarrow> target | Some src \<Rightarrow> extend_loop target src)"

section \<open>The view model\<close>

text \<open>
  \<open>props\<close> holds the value of every observable property of \<open>self\<close>: the built-in ones
  (\<open>settings\<close>, \<open>loading\<close>, \<open>saving\<close>, \<open>saved\<close>, \<open>save_failed\<close>, \<open>messages\<close>,
  \<open>messages_class\<close>, \<open>tab_active\<close>, \<open>tab_default\<close>, \<open>tabs\<close>) and the settings fields
  that \<open>update\<close> creates. They share one namespace, as the properties of \<open>self\<close> do.
  \<open>defaults\<close> is the closure variable of that name, \<open>target\<close> the bound form
  (\<open>None\<close> while it is \<open>null\<close>; \<open>Some b\<close> when \<open>target.valid()\<close> returns \<open>b\<close> for the
  form's present content), \<open>fragment\<close> the location fragment without its \<open>#\<close>,
  \<open>hash_writes\<close> the values assigned to \<open>window.location.hash\<close> so far and
  \<open>requests\<close> the requests handed to \<open>$.ajax\<close> so far.
  The methods of \<open>self\<close> are not properties of the model: a state of the model is a
  state in which they are the functions of the source.
\<close>

record request =
  url :: string
  csrf_token_sent :: string
  commit :: "int option"
  data :: "string option"

record model =
  props :: "string \<rightharpoonup> jsval"
  defaults :: obj
  target :: "bool option"
  fragment :: string
  hash_writes :: "string list"
  requests :: "request list"
  user_data :: "obj option"
  api_url :: string
  csrf_token :: string

definition tabs0 :: "jsval list" where
  "tabs0 =
    [JObs (JObj [(''id'', JStr ''authentication''), (''name'', JStr ''Authentication''), (''icon'', JStr ''fa fa-lock''), (''parent'', JNull)]),
     JObs (JObj [(''id'', JStr ''mail''), (''name'', JStr ''Mail''), (''icon'', JStr ''fa fa-envelope''), (''parent'', JNull)]),
     JObs (JObj [(''id'', JStr ''powerdns''), (''name'', JStr ''PowerDNS''), (''icon'', JStr ''fa fa-server''), (''parent'', JNull)]),
     JObs (JObj [(''id'', JStr ''security''), (''name'', JStr ''Security''), (''icon'', JStr ''fa fa-shield-alt''), (''parent'', JNull)]),
     JObs (JObj [(''id'', JStr ''ui''), (''name'', JStr ''UI''), (''icon'', JStr ''fa fa-desktop''), (''parent'', JNull)]),
     JObs (JObj [(''id'', JStr ''zone-editor''), (''name'', JStr ''Zone Editor''), (''icon'', JStr ''fa fa-edit''), (''parent'', JNull)]),
     JObs (JObj [(''id'', JStr ''local''), (''name'', JStr ''Local''), (''icon'', JStr ''fa fa-user-lock''), (''parent'', JStr ''authentication''), (''def'', JBool True)]),
     JObs (JObj [(''id'', JStr ''ldap''), (''name'', JStr ''LDAP''), (''icon'', JStr ''fa fa-database''), (''parent'', JStr ''authentication'')]),
     JObs (JObj [(''id'', JStr ''azure''), (''name'', JStr ''Azure OAuth''), (''icon'', JStr ''fa-brands fa-microsoft''), (''parent'', JStr ''authentication'')]),
     JObs (JObj [(''id'', JStr ''github''), (''name'', JStr ''GitHub OAuth''), (''icon'', JStr ''fa-brands fa-github''), (''parent'', JStr ''authentication'')]),
     JObs (JObj [(''id'', JStr ''google''), (''name'', JStr ''Google OAuth''), (''icon'', JStr ''fa-brands fa-google''), (''parent'', JStr ''authentication'')]),
     JObs (JObj [(''id'', JStr ''oidc''), (''name'', JStr ''OpenID Connect''), (''icon'', JStr ''fa-brands fa-openid''), (''parent'', JStr ''authentication'')]),
     JObs (JObj [(''id'', JStr ''saml''), (''name'', JStr ''SAML''), (''icon'', JStr ''fa fa-network-wired''), (''parent'', JStr ''authentication'')])]"

definition defaults0 :: obj where
  "defaults0 =
    [(''local_db_enabled'', JBool True),
     (''signup_enabled'', JBool True),
     (''pwd_enforce_characters'', JBool False),
     (''pwd_min_len'', JNum 10),
     (''pwd_min_lowercase'', JNum 3),
     (''pwd_min_uppercase'', JNum 2),
     (''pwd_min_digits'', JNum 2),
     (''pwd_min_special'', JNum 1),
     (''pwd_enforce_complexity'', JBool False),
     (''pwd_min_complexity'', JNum 11),
     (''ldap_enabled'', JBool False),
     (''ldap_type'', JStr ''ldap''),
     (''ldap_uri'', JStr ''''),
     (''ldap_base_dn'', JStr ''''),
     (''ldap_admin_username'', JStr ''''),
     (''ldap_admin_password'', JStr ''''),
     (''ldap_domain'', JStr ''''),
     (''ldap_filter_basic'', JStr ''''),
     (''ldap_filter_username'', JStr ''''),
     (''ldap_filter_group'', JStr ''''),
     (''ldap_filter_groupname'', JStr ''''),
     (''ldap_sg_enabled'', JBool False),
     (''ldap_admin_group'', JStr ''''),
     (''ldap_operator_group'', JStr ''''),
     (''ldap_user_group'', JStr ''''),
     (''autoprovisioning'', JBool False),
     (''autoprovisioning_attribute'', JStr ''''),
     (''urn_value'', JStr ''''),
     (''purge'', JNum 0),
     (''google_oauth_enabled'', JBool False),
     (''google_oauth_client_id'', JStr ''''),
     (''google_oauth_client_secret'', JStr ''''),
     (''google_oauth_scope'', JStr ''''),
     (''google_base_url'', JStr ''''),
     (''google_oauth_auto_configure'', JBool True),
     (''google_oauth_metadata_url'', JStr ''''),
     (''google_token_url'', JStr ''''),
     (''google_authorize_url'', JStr ''''),
     (''github_oauth_enabled'', JBool False),
     (''github_oauth_key'', JStr ''''),
     (''github_oauth_secret'', JStr ''''),
     (''github_oauth_scope'', JStr ''''),
     (''github_oauth_api_url'', JStr ''''),
     (''github_oauth_auto_configure'', JBool False),
     (''github_oauth_metadata_url'', JStr ''''),
     (''github_oauth_token_url'', JStr ''''),
     (''github_oauth_authorize_url'', JStr ''''),
     (''azure_oauth_enabled'', JBool False),
     (''azure_oauth_key'', JStr ''''),
     (''azure_oauth_secret'', JStr ''''),
     (''azure_oauth_scope'', JStr ''''),
     (''azure_oauth_api_url'', JStr ''''),
     (''azure_oauth_auto_configure'', JBool True),
     (''azure_oauth_metadata_url'', JStr ''''),
     (''azure_oauth_token_url'', JStr ''''),
     (''azure_oauth_authorize_url'', JStr ''''),
     (''azure_sg_enabled'', JBool False),
     (''azure_admin_group'', JStr ''''),
     (''azure_operator_group'', JStr ''''),
     (''azure_user_group'', JStr ''''),
     (''azure_group_accounts_enabled'', JBool False),
     (''azure_group_accounts_name'', JStr ''''),
     (''azure_group_accounts_name_re'', JStr ''''),
     (''azure_group_accounts_description'', JStr ''''),
     (''azure_group_accounts_description_re'', JStr ''''),
     (''oidc_oauth_enabled'', JBool False),
     (''oidc_oauth_key'', JStr ''''),
     (''oidc_oauth_secret'', JStr ''''),
     (''oidc_oauth_scope'', JStr ''''),
     (''oidc_oauth_api_url'', JStr ''''),
     (''oidc_oauth_auto_configure'', JBool True),
     (''oidc_oauth_metadata_url'', JStr ''''),
     (''oidc_oauth_token_url'', JStr ''''),
     (''oidc_oauth_authorize_url'', JStr ''''),
     (''oidc_oauth_logout_url'', JStr ''''),
     (''oidc_oauth_username'', JStr ''''),
     (''oidc_oauth_email'', JStr ''''),
     (''oidc_oauth_firstname'', JStr ''''),
     (''oidc_oauth_last_name'', JStr ''''),
     (''oidc_oauth_account_name_property'', JStr ''''),
     (''oidc_oauth_account_description_property'', JStr '''')]"

text \<open>
  The state built by \<open>new SettingsEditorModel(user_data, api_url, csrf_token, selector)\<close>
  on a page whose location fragment is \<open>frag\<close>.
\<close>

definition props0 :: "string \<rightharpoonup> jsval" where
  "props0 =
     [''settings'' \<mapsto> JObj [],
      ''loading'' \<mapsto> JBool False,
      ''saving'' \<mapsto> JBool False,
      ''saved'' \<mapsto> JBool False,
      ''save_failed'' \<mapsto> JBool False,
      ''messages'' \<mapsto> JArr [],
      ''messages_class'' \<mapsto> JStr ''info'',
      ''tab_active'' \<mapsto> JStr '''',
      ''tab_default'' \<mapsto> JStr ''authentication'',
      ''tabs'' \<mapsto> JArr tabs0]"

definition new_model :: "obj option \<Rightarrow> string \<Rightarrow> string \<Rightarrow> string \<Rightarrow> model" where
  "new_model ud api tok frag =
     \<lparr>props = props0, defaults = defaults0, target = None, fragment = frag,
      hash_writes = [], requests = [], user_data = ud, api_url = api, csrf_token = tok\<rparr>"

subsection \<open>update\<close>

text \<open>
  \<open>self.update(instance)\<close>: the loop runs over the entries of \<open>$.extend(defaults, instance)\<close>,
  which is \<open>defaults\<close> itself after the merge. A key that names an observable of \<open>self\<close>
  is written; any other key gets a new observable.
\<close>

fun update_loop :: "obj \<Rightarrow> (string \<rightharpoonup> jsval) \<Rightarrow> (string \<rightharpoonup> jsval)" where
  "update_loop [] ps = ps"
| "update_loop ((key, val) # entries) ps =
     update_loop entries
       (case ps key of Some old \<Rightarrow> ps(key \<mapsto> val) | None \<Rightarrow> ps(key \<mapsto> val))"

definition update :: "obj option \<Rightarrow> model \<Rightarrow> model" where
  "update inst m =
     (let merged = jq_extend (defaults m) inst
      in m\<lparr>defaults := merged, props := update_loop merged (props m)\<rparr>)"

text \<open>
  The names of the methods of \<open>self\<close>. An entry of an update whose key is one of them
  replaces the method by an observable; the model does not follow the program after that.
\<close>

definition method_names :: "string list" where
  "method_names =
     [''init'', ''load'', ''save'', ''update'', ''setupKnockoutBindings'', ''setupListeners'',
      ''destroyListeners'', ''setupValidation'', ''activateTab'', ''activateSubTab'',
      ''activateDefaultTab'', ''getHash'', ''hasHash'', ''observe'', ''onDataLoaded'',
      ''onDataSaved'', ''onHashChange'', ''onSaveClick'', ''onTabClick'', ''onSubTabClick'']"

subsection \<open>Observables\<close>

text \<open>
  \<open>self.k()\<close> reads the observable \<open>k\<close>; where \<open>self.k\<close> is undefined the call
  throws. \<open>self.k(v)\<close> writes it.
\<close>

definition bind_err :: "error + 'a \<Rightarrow> ('a \<Rightarrow> error + 'b) \<Rightarrow> error + 'b" where
  "bind_err r f = (case r of Inl e \<Rightarrow> Inl e | Inr x \<Rightarrow> f x)"

definition obs_read :: "model \<Rightarrow> string \<Rightarrow> error + jsval" where
  "obs_read m k = (case props m k of None \<Rightarrow> Inl TypeError | Some v \<Rightarrow> Inr v)"

definition obs_write :: "string \<Rightarrow> jsval \<Rightarrow> model \<Rightarrow> model" where
  "obs_write k v m = m\<lparr>props := (props m)(k \<mapsto> v)\<rparr>"

subsection \<open>The location fragment\<close>

text \<open>
  \<open>window.location.hash\<close> reads as the empty string when the fragment is empty and as
  \<open>#\<close> followed by the fragment otherwise; an assignment drops one leading \<open>#\<close> of the
  assigned string and makes the rest the fragment. The paths of this editor are tab
  ids joined by \<open>/\<close>; the percent-encoding a browser applies to other characters is
  left out.
\<close>

definition location_hash :: "model \<Rightarrow> string" where
  "location_hash m = (if fragment m = [] then [] else CHR ''#'' # fragment m)"

definition strip_hash :: "string \<Rightarrow> string" where
  "strip_hash v = (case v of [] \<Rightarrow> [] | c # rest \<Rightarrow> if c = CHR ''#'' then rest else v)"

definition set_hash :: "string \<Rightarrow> model \<Rightarrow> model" where
  "set_hash v m = m\<lparr>fragment := strip_hash v, hash_writes := hash_writes m @ [v]\<rparr>"

definition getHash :: "model \<Rightarrow> string" where
  "getHash m = drop 1 (location_hash m)"

definition hasHash :: "model \<Rightarrow> bool" where
  "hasHash m = (1 < length (location_hash m))"

subsection \<open>load and save\<close>

definition load :: "model \<Rightarrow> model" where
  "load m =
     (let m1 = obs_write ''loading'' (JBool True) m
      in m1\<lparr>requests := requests m1 @
           [\<lparr>url = api_url m1, csrf_token_sent = csrf_token m1, commit = None, data = None\<rparr>]\<rparr>)"

text \<open>
  \<open>save\<close> returns \<open>false\<close> when the form is invalid and nothing (undefined) otherwise;
  \<open>target.valid()\<close> throws while \<open>target\<close> is \<open>null\<close>. \<open>toJSON\<close> stands for
  knockout's \<open>ko.toJSON\<close>, applied to the properties of \<open>self\<close> as they are when the
  request is built, that is after \<open>saving\<close> was set.
\<close>

definition save :: "((string \<rightharpoonup> jsval) \<Rightarrow> string) \<Rightarrow> model \<Rightarrow> error + (jsval \<times> model)" where
  "save toJSON m =
     (case target m of
        None \<Rightarrow> Inl TypeError
      | Some ok \<Rightarrow>
          if \<not> ok then Inr (JBool False, m)
          else
            (let m1 = obs_write ''saving'' (JBool True) m
             in Inr (JUndef,
                  m1\<lparr>requests := requests m1 @
                    [\<lparr>url = api_url m1, csrf_token_sent = csrf_token m1, commit = Some 1,
                      data = Some (toJSON (props m1))\<rparr>]\<rparr>)))"

subsection \<open>Tab navigation\<close>

text \<open>
  The values \<open>for (const index in x) ... x[index]\<close> visits: the elements of an array, the
  values of an object, the characters of a string, nothing for the other primitives.
\<close>

definition for_in_values :: "jsval \<Rightarrow> error + jsval list" where
  "for_in_values x =
     (case x of
        JArr xs \<Rightarrow> Inr xs
      | JObj kvs \<Rightarrow> Inr (map snd kvs)
      | JStr s \<Rightarrow> Inr (map (\<lambda>c. JStr [c]) s)
      | JObs v \<Rightarrow> Inl Unmodelled
      | _ \<Rightarrow> Inr [])"

text \<open>
  The loop of \<open>activateTab\<close>: each element is called (it has to be an observable) and
  gives \<open>item\<close>; \<open>item.parent === tab && item.def\<close> appends \<open>'/' + item.id\<close> to \<open>tab\<close>,
  and the loop goes on with the longer \<open>tab\<close>. An \<open>id\<close> that is not a string is not
  followed.
\<close>

fun tab_loop :: "jsval list \<Rightarrow> string \<Rightarrow> error + string" where
  "tab_loop [] tab = Inr tab"
| "tab_loop (JObs item # rest) tab =
     (case item of
        JUndef \<Rightarrow> Inl TypeError
      | JNull \<Rightarrow> Inl TypeError
      | JObj kvs \<Rightarrow>
          if strict_eq (get_prop kvs ''parent'') (JStr tab) \<and> truthy (get_prop kvs ''def'')
          then (case get_prop kvs ''id'' of
                  JStr i \<Rightarrow> tab_loop rest (tab @ ''/'' @ i)
                | _ \<Rightarrow> Inl Unmodelled)
          else tab_loop rest tab
      | _ \<Rightarrow> tab_loop rest tab)"
| "tab_loop (x # rest) tab = Inl TypeError"

definition activateTab :: "string \<Rightarrow> model \<Rightarrow> error + model" where
  "activateTab tab m =
     bind_err
       (if CHR ''/'' \<notin> set tab
        then bind_err (obs_read m ''tabs'') (\<lambda>ts. bind_err (for_in_values ts) (\<lambda>items. tab_loop items tab))
        else Inr tab)
       (\<lambda>tab'. Inr (set_hash tab' (obs_write ''tab_active'' (JStr tab') m)))"

text \<open>
  \<open>activateSubTab\<close> calls \<open>self.tab_sub_active\<close>, which the constructor does not define.
\<close>

definition activateSubTab :: "string \<Rightarrow> model \<Rightarrow> error + model" where
  "activateSubTab tab m =
     (case props m ''tab_sub_active'' of
        None \<Rightarrow> Inl TypeError
      | Some old \<Rightarrow>
          (case props m ''tab_active'' of
             Some (JStr active) \<Rightarrow>
               Inr (set_hash (active @ ''/'' @ tab) (obs_write ''tab_sub_active'' (JStr tab) m))
           | _ \<Rightarrow> Inl Unmodelled))"

definition activateDefaultTab :: "model \<Rightarrow> error + model" where
  "activateDefaultTab m =
     bind_err (obs_read m ''tab_default'')
       (\<lambda>d. case d of
               JStr tab \<Rightarrow> activateTab tab m
             | JUndef \<Rightarrow> Inl TypeError
             | JNull \<Rightarrow> Inl TypeError
             | JBool b \<Rightarrow> Inl TypeError
             | JNum n \<Rightarrow> Inl TypeError
             | _ \<Rightarrow> Inl Unmodelled)"

definition is_space :: "char \<Rightarrow> bool" where
  "is_space c = (c \<in> set [CHR '' '', CHR 0x09, CHR 0x0A, CHR 0x0B, CHR 0x0C, CHR 0x0D])"

definition trim :: "string \<Rightarrow> string" where
  "trim s = rev (dropWhile is_space (rev (dropWhile is_space s)))"

definition onHashChange :: "model \<Rightarrow> error + model" where
  "onHashChange m =
     (let hash = trim (location_hash m)
      in if 1 < length hash then activateTab (drop 1 hash) m else activateDefaultTab m)"

text \<open>
  \<open>onTabClick\<close>: \<open>tab\<close> and \<open>parent\<close> are the \<open>data-tab\<close> and \<open>data-tab-parent\<close>
  attributes of the clicked link (\<open>None\<close> where the attribute is absent).
\<close>

definition onTabClick :: "string \<Rightarrow> string option \<Rightarrow> model \<Rightarrow> error + model" where
  "onTabClick tab parent m =
     (let path = (case parent of None \<Rightarrow> [] | Some p \<Rightarrow> if p \<noteq> [] then p @ ''/'' else [])
      in activateTab (path @ tab) m)"

definition onSubTabClick :: "string \<Rightarrow> model \<Rightarrow> error + model" where
  "onSubTabClick tab m = activateSubTab tab m"

subsection \<open>The response handlers\<close>

text \<open>
  \<open>observe\<close> wraps every leaf of a JSON tree in an observable. An object is entered when
  its \<open>constructor\<close> is \<open>Object\<close>, which an own key \<open>constructor\<close> hides; the loop over
  an entered object calls \<open>value.hasOwnProperty\<close>, which an own key of that name
  replaces by something that is not a function (the tree is parsed JSON, so it holds no
  function). \<open>observe_throws\<close> tells whether that call is reached; it is reached before
  \<open>onDataLoaded\<close> writes anything.
\<close>

fun observe :: "jsval \<Rightarrow> jsval" where
  "observe JUndef = JNull"
| "observe (JArr xs) = JArr (map observe xs)"
| "observe (JObj kvs) =
     (if map_of kvs ''constructor'' = None
      then JObj (map (\<lambda>(k, v). (k, observe v)) kvs)
      else JObs (JObj kvs))"
| "observe v = JObs v"

fun observe_throws :: "jsval \<Rightarrow> bool" where
  "observe_throws (JArr xs) = list_ex observe_throws xs"
| "observe_throws (JObj kvs) =
     (map_of kvs ''constructor'' = None \<and> kvs \<noteq> [] \<and>
      (map_of kvs ''hasOwnProperty'' \<noteq> None \<or> list_ex (\<lambda>(k, v). observe_throws v) kvs))"
| "observe_throws v = False"

record payload =
  legacy :: "obj option"
  settings_tree :: jsval

record load_result =
  status :: jsval
  messages :: jsval
  payload :: "payload option"

record save_result =
  save_status :: jsval
  save_messages :: jsval
  save_data :: "obj option"

definition onDataLoaded :: "load_result \<Rightarrow> model \<Rightarrow> error + (jsval \<times> model)" where
  "onDataLoaded result m =
     (if strict_eq (status result) (JNum 0)
      then Inr (JBool False,
             obs_write ''loading'' (JBool False)
               (obs_write ''messages'' (messages result)
                 (obs_write ''messages_class'' (JStr ''danger'') m)))
      else
        (case payload result of
           None \<Rightarrow> Inl TypeError
         | Some p \<Rightarrow>
             if observe_throws (settings_tree p) then Inl TypeError
             else
               (let settings = observe (settings_tree p)
                in Inr (JUndef,
                     obs_write ''loading'' (JBool False)
                       (obs_write ''messages'' (messages result)
                         (obs_write ''messages_class'' (JStr ''info'')
                           (obs_write ''settings'' settings
                             (update (legacy p) m))))))))"

definition onDataSaved :: "save_result \<Rightarrow> model \<Rightarrow> jsval \<times> model" where
  "onDataSaved result m =
     (if strict_eq (save_status result) (JNum 0)
      then (JBool False,
             obs_write ''saving'' (JBool False)
               (obs_write ''messages'' (save_messages result)
                 (obs_write ''messages_class'' (JStr ''danger'')
                   (obs_write ''save_failed'' (JBool True)
                     (obs_write ''saved'' (JBool False) m)))))
      else (JUndef,
             obs_write ''saving'' (JBool False)
               (obs_write ''messages'' (save_messages result)
                 (obs_write ''messages_class'' (JStr ''info'')
                   (obs_write ''save_failed'' (JBool False)
                     (obs_write ''saved'' (JBool True)
                       (update (save_data result) m)))))))"

definition onSaveClick :: "((string \<rightharpoonup> jsval) \<Rightarrow> string) \<Rightarrow> model \<Rightarrow> error + (jsval \<times> model)" where
  "onSaveClick toJSON m =
     bind_err (save toJSON m) (\<lambda>(r, m'). Inr (JBool False, m'))"

subsection \<open>Edits through the bindings\<close>

text \<open>
  The \<open>setting\<close> binding handler writes the state of a switch to the observable bound to
  it (\<open>valueAccessor()(state)\<close>), as knockout's own bindings do for the other inputs;
  \<open>onElementChanged\<close> then runs \<open>target.valid()\<close>, which changes no property of \<open>self\<close>.
  \<open>verdict\<close> is what \<open>target.valid()\<close> returns for the form after the edit.
\<close>

definition switchChange :: "string \<Rightarrow> bool \<Rightarrow> model \<Rightarrow> model" where
  "switchChange key state m = obs_write key (JBool state) m"

definition onElementChanged :: "bool \<Rightarrow> model \<Rightarrow> error + model" where
  "onElementChanged verdict m =
     (case target m of None \<Rightarrow> Inl TypeError | Some old \<Rightarrow> Inr (m\<lparr>target := Some verdict\<rparr>))"

definition edit :: "string \<Rightarrow> jsval \<Rightarrow> bool \<Rightarrow> model \<Rightarrow> model" where
  "edit key v verdict m =
     (case onElementChanged verdict (obs_write key v m) of Inl e \<Rightarrow> obs_write key v m | Inr m' \<Rightarrow> m')"

subsection \<open>init\<close>

text \<open>
  \<open>form\<close> is what \<open>$(selector)\<close> finds: \<open>None\<close> when the selector is undefined or matches
  nothing, \<open>Some b\<close> when it matches a form for which \<open>valid()\<close> returns \<open>b\<close>.
  \<open>setupValidation\<close> starts with \<open>target.find\<close>, which throws while \<open>target\<close> is
  \<open>null\<close>. The result pairs the exception, if any, with the state \<open>init\<close> leaves.
  This is the call a page makes once; knockout's refusal to bind the same element a
  second time is left out.
\<close>

definition setupKnockoutBindings :: "bool option \<Rightarrow> model \<Rightarrow> model" where
  "setupKnockoutBindings form m = (case form of None \<Rightarrow> m | Some b \<Rightarrow> m\<lparr>target := Some b\<rparr>)"

definition init :: "bool \<Rightarrow> bool option \<Rightarrow> model \<Rightarrow> error option \<times> model" where
  "init autoload form m =
     (let m1 = setupKnockoutBindings form (update (user_data m) m)
      in case (if hasHash m1 then activateTab (getHash m1) m1 else activateDefaultTab m1) of
           Inl e \<Rightarrow> (Some e, m1)
         | Inr m2 \<Rightarrow>
             (case target m2 of
                None \<Rightarrow> (Some TypeError, m2)
              | Some b \<Rightarrow> (None, if autoload then load m2 else m2)))"

section \<open>Validation\<close>

subsection \<open>The rule table\<close>

text \<open>
  The predicates a rule can depend on, named as in \<open>setupValidation\<close>, and the rules of
  the validation plugin the table uses. \<open>Depends d\<close> is a field whose entry is the
  predicate itself (\<open>ldap_type: ldap_enabled\<close>); \<open>Uuid None\<close> is \<open>uuid: true\<close>.
\<close>

datatype dep =
    Dep_local_enabled
  | Dep_ldap_enabled
  | Dep_google_oauth_enabled
  | Dep_github_oauth_enabled
  | Dep_azure_oauth_enabled
  | Dep_oidc_oauth_enabled
  | Dep_enforce_characters
  | Dep_enforce_complexity
  | Dep_ldap_type_openldap
  | Dep_ldap_type_ad
  | Dep_ldap_sg_enabled
  | Dep_ldap_ap_enabled
  | Dep_azure_gs_enabled
  | Dep_azure_gas_enabled
  | Dep_google_oauth_auto_configure_enabled
  | Dep_google_oauth_auto_configure_disabled
  | Dep_github_oauth_auto_configure_enabled
  | Dep_github_oauth_auto_configure_disabled
  | Dep_azure_oauth_auto_configure_enabled
  | Dep_azure_oauth_auto_configure_disabled
  | Dep_oidc_oauth_auto_configure_enabled
  | Dep_oidc_oauth_auto_configure_disabled

datatype rule =
    Required dep
  | Digits
  | Min int
  | Max int
  | Minlength nat
  | Maxlength nat
  | Url
  | Uuid "dep option"
  | Auth_enabled
  | Ldap_exclusive
  | Depends dep

definition rules :: "(string \<times> rule list) list" where
  "rules =
    [(''local_db_enabled'', [Auth_enabled]),
     (''ldap_enabled'', [Auth_enabled]),
     (''google_oauth_enabled'', [Auth_enabled]),
     (''github_oauth_enabled'', [Auth_enabled]),
     (''azure_oauth_enabled'', [Auth_enabled]),
     (''oidc_oauth_enabled'', [Auth_enabled]),
     (''pwd_min_len'', [Required Dep_enforce_characters, Digits, Min 1, Max 64]),
     (''pwd_min_lowercase'', [Required Dep_enforce_characters, Digits, Min 0, Max 64]),
     (''pwd_min_uppercase'', [Required Dep_enforce_characters, Digits, Min 0, Max 64]),
     (''pwd_min_digits'', [Required Dep_enforce_characters, Digits, Min 0, Max 64]),
     (''pwd_min_special'', [Required Dep_enforce_characters, Digits, Min 0, Max 64]),
     (''pwd_min_complexity'', [Required Dep_enforce_complexity, Digits, Min 1, Max 1000]),
     (''ldap_type'', [Depends Dep_ldap_enabled]),
     (''ldap_uri'', [Required Dep_ldap_enabled, Minlength 11, Maxlength 255]),
     (''ldap_base_dn'', [Required Dep_ldap_enabled, Minlength 4, Maxlength 255]),
     (''ldap_admin_username'', [Required Dep_ldap_type_openldap, Minlength 4, Maxlength 255]),
     (''ldap_admin_password'', [Required Dep_ldap_type_openldap, Minlength 1, Maxlength 255]),
     (''ldap_domain'', [Required Dep_ldap_type_ad, Minlength 1, Maxlength 255]),
     (''ldap_filter_basic'', [Required Dep_ldap_enabled, Minlength 3, Maxlength 1000]),
     (''ldap_filter_username'', [Required Dep_ldap_enabled, Minlength 1, Maxlength 100]),
     (''ldap_filter_group'', [Required Dep_ldap_type_openldap, Minlength 3, Maxlength 100]),
     (''ldap_filter_groupname'', [Required Dep_ldap_type_openldap, Minlength 1, Maxlength 100]),
     (''ldap_sg_enabled'', [Required Dep_ldap_enabled, Ldap_exclusive]),
     (''ldap_admin_group'', [Required Dep_ldap_sg_enabled, Minlength 3, Maxlength 100]),
     (''ldap_operator_group'', [Required Dep_ldap_sg_enabled, Minlength 3, Maxlength 100]),
     (''ldap_user_group'', [Required Dep_ldap_sg_enabled, Minlength 3, Maxlength 100]),
     (''autoprovisioning'', [Required Dep_ldap_enabled, Ldap_exclusive]),
     (''autoprovisioning_attribute'', [Required Dep_ldap_ap_enabled, Minlength 1, Maxlength 100]),
     (''urn_value'', [Required Dep_ldap_ap_enabled, Minlength 1, Maxlength 100]),
     (''purge'', [Depends Dep_ldap_enabled]),
     (''google_oauth_client_id'', [Required Dep_google_oauth_enabled, Minlength 1, Maxlength 255]),
     (''google_oauth_client_secret'', [Required Dep_google_oauth_enabled, Minlength 1, Maxlength 255]),
     (''google_oauth_scope'', [Required Dep_google_oauth_enabled, Minlength 1, Maxlength 255]),
     (''google_base_url'', [Required Dep_google_oauth_enabled, Minlength 1, Maxlength 255, Url]),
     (''google_oauth_metadata_url'', [Required Dep_google_oauth_auto_configure_enabled, Minlength 1, Maxlength 255, Url]),
     (''google_token_url'', [Required Dep_google_oauth_auto_configure_disabled, Minlength 1, Maxlength 255, Url]),
     (''google_authorize_url'', [Required Dep_google_oauth_auto_configure_disabled, Minlength 1, Maxlength 255, Url]),
     (''github_oauth_key'', [Required Dep_github_oauth_enabled, Minlength 1, Maxlength 255]),
     (''github_oauth_secret'', [Required Dep_github_oauth_enabled, Minlength 1, Maxlength 255]),
     (''github_oauth_scope'', [Required Dep_github_oauth_enabled, Minlength 1, Maxlength 255]),
     (''github_oauth_api_url'', [Required Dep_github_oauth_enabled, Minlength 1, Maxlength 255, Url]),
     (''github_oauth_metadata_url'', [Required Dep_github_oauth_auto_configure_enabled, Minlength 1, Maxlength 255, Url]),
     (''github_oauth_token_url'', [Required Dep_github_oauth_auto_configure_disabled, Minlength 1, Maxlength 255, Url]),
     (''github_oauth_authorize_url'', [Required Dep_github_oauth_auto_configure_disabled, Minlength 1, Maxlength 255, Url]),
     (''azure_oauth_key'', [Required Dep_azure_oauth_enabled, Minlength 1, Maxlength 255, Uuid None]),
     (''azure_oauth_secret'', [Required Dep_azure_oauth_enabled, Minlength 1, Maxlength 255]),
     (''azure_oauth_scope'', [Required Dep_azure_oauth_enabled, Minlength 1, Maxlength 255]),
     (''azure_oauth_api_url'', [Required Dep_azure_oauth_enabled, Minlength 1, Maxlength 255, Url]),
     (''azure_oauth_metadata_url'', [Required Dep_azure_oauth_auto_configure_enabled, Minlength 1, Maxlength 255, Url]),
     (''azure_oauth_token_url'', [Required Dep_azure_oauth_auto_configure_disabled, Minlength 1, Maxlength 255, Url]),
     (''azure_oauth_authorize_url'', [Required Dep_azure_oauth_auto_configure_disabled, Minlength 1, Maxlength 255, Url]),
     (''azure_sg_enabled'', [Depends Dep_azure_oauth_enabled]),
     (''azure_admin_group'', [Uuid (Some Dep_azure_gs_enabled)]),
     (''azure_operator_group'', [Uuid (Some Dep_azure_gs_enabled)]),
     (''azure_user_group'', [Uuid (Some Dep_azure_gs_enabled)]),
     (''azure_group_accounts_enabled'', [Depends Dep_azure_oauth_enabled]),
     (''azure_group_accounts_name'', [Required Dep_azure_gas_enabled, Minlength 1, Maxlength 255]),
     (''azure_group_accounts_name_re'', [Required Dep_azure_gas_enabled, Minlength 1, Maxlength 255]),
     (''azure_group_accounts_description'', [Required Dep_azure_gas_enabled, Minlength 1, Maxlength 255]),
     (''azure_group_accounts_description_re'', [Required Dep_azure_gas_enabled, Minlength 1, Maxlength 255]),
     (''oidc_oauth_key'', [Required Dep_oidc_oauth_enabled, Minlength 1, Maxlength 255]),
     (''oidc_oauth_secret'', [Required Dep_oidc_oauth_enabled, Minlength 1, Maxlength 255]),
     (''oidc_oauth_scope'', [Required Dep_oidc_oauth_enabled, Minlength 1, Maxlength 255]),
     (''oidc_oauth_api_url'', [Required Dep_oidc_oauth_enabled, Minlength 1, Maxlength 255, Url]),
     (''oidc_oauth_metadata_url'', [Required Dep_oidc_oauth_auto_configure_enabled, Minlength 1, Maxlength 255, Url]),
     (''oidc_oauth_token_url'', [Required Dep_oidc_oauth_auto_configure_disabled, Minlength 1, Maxlength 255, Url]),
     (''oidc_oauth_authorize_url'', [Required Dep_oidc_oauth_auto_configure_disabled, Minlength 1, Maxlength 255, Url]),
     (''oidc_oauth_logout_url'', [Required Dep_oidc_oauth_enabled, Minlength 1, Maxlength 255, Url]),
     (''oidc_oauth_username'', [Required Dep_oidc_oauth_enabled, Minlength 1, Maxlength 255]),
     (''oidc_oauth_email'', [Required Dep_oidc_oauth_enabled, Minlength 1, Maxlength 255]),
     (''oidc_oauth_firstname'', [Minlength 0, Maxlength 255]),
     (''oidc_oauth_last_name'', [Minlength 0, Maxlength 255]),
     (''oidc_oauth_account_name_property'', [Minlength 0, Maxlength 255]),
     (''oidc_oauth_account_description_property'', [Minlength 0, Maxlength 255])]"

subsection \<open>The custom methods\<close>

definition count_if :: "jsval \<Rightarrow> nat \<Rightarrow> nat" where
  "count_if v enabled = (if truthy v then enabled + 1 else enabled)"

definition auth_enabled :: "model \<Rightarrow> error + bool" where
  "auth_enabled m =
     bind_err (obs_read m ''local_db_enabled'') (\<lambda>a.
     bind_err (obs_read m ''ldap_enabled'') (\<lambda>b.
     bind_err (obs_read m ''google_oauth_enabled'') (\<lambda>c.
     bind_err (obs_read m ''github_oauth_enabled'') (\<lambda>d.
     bind_err (obs_read m ''azure_oauth_enabled'') (\<lambda>e.
     bind_err (obs_read m ''oidc_oauth_enabled'') (\<lambda>f.
       Inr (0 < count_if f (count_if e (count_if d (count_if c (count_if b (count_if a 0))))))))))))"

definition count_if_one :: "jsval \<Rightarrow> nat \<Rightarrow> nat" where
  "count_if_one v enabled = (if strict_eq v (JNum 1) then enabled + 1 else enabled)"

definition ldap_exclusive :: "model \<Rightarrow> error + bool" where
  "ldap_exclusive m =
     bind_err (obs_read m ''ldap_sg_enabled'') (\<lambda>a.
     bind_err (obs_read m ''autoprovisioning'') (\<lambda>b.
       Inr (count_if_one b (count_if_one a 0) < 2)))"

subsection \<open>The UUID pattern\<close>

text \<open>
  Regular expressions as far as \<open>uuidRegExp\<close> needs them. A matcher state is the rest
  of the input with a flag telling whether the position is the start of the input;
  \<open>rmatch\<close> returns every state a match of the expression can end in.
  \<open>canon\<close> is the case folding of the \<open>i\<close> flag.
\<close>

datatype regex =
    Bol
  | Eol
  | Cls "char list"
  | Plus_cls "char list"
  | Seq regex regex
  | Alt regex regex
  | Rep nat regex

definition canon :: "char \<Rightarrow> char" where
  "canon c =
     (case map_of (zip ''abcdefghijklmnopqrstuvwxyz'' ''ABCDEFGHIJKLMNOPQRSTUVWXYZ'') c of
        None \<Rightarrow> c | Some u \<Rightarrow> u)"

definition in_cls :: "bool \<Rightarrow> char list \<Rightarrow> char \<Rightarrow> bool" where
  "in_cls ci cs c = (if ci then canon c \<in> set (map canon cs) else c \<in> set cs)"

fun plus_cls :: "bool \<Rightarrow> char list \<Rightarrow> string \<Rightarrow> (bool \<times> string) list" where
  "plus_cls ci cs [] = []"
| "plus_cls ci cs (c # rest) =
     (if in_cls ci cs c then (False, rest) # plus_cls ci cs rest else [])"

fun rep :: "nat \<Rightarrow> ('s \<Rightarrow> 's list) \<Rightarrow> 's \<Rightarrow> 's list" where
  "rep 0 f s = [s]"
| "rep (Suc n) f s = concat (map (rep n f) (f s))"

primrec rmatch :: "bool \<Rightarrow> regex \<Rightarrow> bool \<times> string \<Rightarrow> (bool \<times> string) list" where
  "rmatch ci Bol = (\<lambda>st. if fst st then [st] else [])"
| "rmatch ci Eol = (\<lambda>st. if snd st = [] then [st] else [])"
| "rmatch ci (Cls cs) =
     (\<lambda>st. case snd st of [] \<Rightarrow> [] | c # rest \<Rightarrow> if in_cls ci cs c then [(False, rest)] else [])"
| "rmatch ci (Plus_cls cs) = (\<lambda>st. plus_cls ci cs (snd st))"
| "rmatch ci (Seq a b) = (\<lambda>st. concat (map (rmatch ci b) (rmatch ci a st)))"
| "rmatch ci (Alt a b) = (\<lambda>st. rmatch ci a st @ rmatch ci b st)"
| "rmatch ci (Rep n a) = rep n (rmatch ci a)"

text \<open>\<open>re.test(s)\<close>: a match may start at any position of \<open>s\<close>.\<close>

definition regex_test :: "bool \<Rightarrow> regex \<Rightarrow> string \<Rightarrow> bool" where
  "regex_test ci r s =
     list_ex (\<lambda>i. rmatch ci r (i = 0, drop i s) \<noteq> []) [0 ..< Suc (length s)]"

definition hex :: regex where
  "hex = Cls ''0123456789abcdef''"

definition dash :: regex where
  "dash = Cls ''-''"

text \<open>
  \<open>/^([0-9a-f]{8}-[0-9a-f]{4}-[1-5][0-9a-f]{3}-[89ab][0-9a-f]{3}-[0-9a-f]{12})|[0-9]+$/i\<close>:
  the alternation is the outermost operator, so \<open>^\<close> belongs to the first alternative
  and \<open>$\<close> to the second.
\<close>

definition uuidRegExp :: regex where
  "uuidRegExp =
     Alt
       (Seq Bol
         (Seq (Rep 8 hex) (Seq dash
         (Seq (Rep 4 hex) (Seq dash
         (Seq (Cls ''12345'') (Seq (Rep 3 hex) (Seq dash
         (Seq (Cls ''89ab'') (Seq (Rep 3 hex) (Seq dash
         (Rep 12 hex))))))))))))
       (Seq (Plus_cls ''0123456789'') Eol)"

definition uuid :: "string \<Rightarrow> bool" where
  "uuid v = regex_test True uuidRegExp v"

section \<open>Events\<close>

text \<open>
  What can happen to a view model on its page: the calls of its handlers, the two
  responses, an edit through a binding, and the user changing the location fragment.
  \<open>step\<close> gives the state after the event; a handler that throws before its first
  write leaves the state as it was. \<open>None\<close> is an outcome the model does not follow.
\<close>

datatype event =
    Init bool "bool option"
  | Load
  | LoadResponse load_result
  | SaveClick
  | SaveResponse save_result
  | Edit string jsval bool
  | TabClick string "string option"
  | SubTabClick string
  | HashChange
  | Navigate string

definition keep :: "model \<Rightarrow> error + model \<Rightarrow> model option" where
  "keep m r =
     (case r of Inr m' \<Rightarrow> Some m' | Inl TypeError \<Rightarrow> Some m | Inl Unmodelled \<Rightarrow> None)"

fun step :: "((string \<rightharpoonup> jsval) \<Rightarrow> string) \<Rightarrow> event \<Rightarrow> model \<Rightarrow> model option" where
  "step toJSON (Init autoload form) m =
     (case init autoload form m of
        (Some Unmodelled, m') \<Rightarrow> None
      | (e, m') \<Rightarrow> Some m')"
| "step toJSON Load m = Some (load m)"
| "step toJSON (LoadResponse result) m =
     keep m (bind_err (onDataLoaded result m) (\<lambda>(r, m'). Inr m'))"
| "step toJSON SaveClick m =
     keep m (bind_err (onSaveClick toJSON m) (\<lambda>(r, m'). Inr m'))"
| "step toJSON (SaveResponse result) m = Some (snd (onDataSaved result m))"
| "step toJSON (Edit key v verdict) m = Some (edit key v verdict m)"
| "step toJSON (TabClick tab parent) m = keep m (onTabClick tab parent m)"
| "step toJSON (SubTabClick tab) m = keep m (onSubTabClick tab m)"
| "step toJSON HashChange m = keep m (onHashChange m)"
| "step toJSON (Navigate frag) m = Some (m\<lparr>fragment := frag\<rparr>)"

fun run :: "((string \<rightharpoonup> jsval) \<Rightarrow> string) \<Rightarrow> event list \<Rightarrow> model \<Rightarrow> model option" where
  "run toJSON [] m = Some m"
| "run toJSON (e # es) m =
     (case step toJSON e m of None \<Rightarrow> None | Some m' \<Rightarrow> run toJSON es m')"

text \<open>
  The keys an update carries: those of \<open>user_data\<close>, of the \<open>legacy\<close> object of a load
  response and of the \<open>data\<close> object of a save response; an edit has the key of the
  observable it writes.
\<close>

definition keys_ok :: "(string \<Rightarrow> bool) \<Rightarrow> obj option \<Rightarrow> bool" where
  "keys_ok P inst = (case inst of None \<Rightarrow> True | Some kvs \<Rightarrow> list_all P (map fst kvs))"

fun event_ok :: "(string \<Rightarrow> bool) \<Rightarrow> event \<Rightarrow> bool" where
  "event_ok P (LoadResponse result) =
     (case payload result of None \<Rightarrow> True | Some p \<Rightarrow> keys_ok P (legacy p))"
| "event_ok P (SaveResponse result) = keys_ok P (save_data result)"
| "event_ok P (Edit key v verdict) = P key"
| "event_ok P e = True"

definition not_method :: "string \<Rightarrow> bool" where
  "not_method k = (k \<notin> set method_names)"

definition settings_key :: "string \<Rightarrow> bool" where
  "settings_key k = (k \<noteq> ''saved'' \<and> k \<noteq> ''save_failed'' \<and> not_method k)"

section \<open>Specification of the default sub-tab\<close>



section \<open>Auxiliary predicates\<close>

text \<open>
  \<open>omits k inst\<close>: the argument of an update has no entry for \<open>k\<close>.
  \<open>flags_inv\<close>: the two save flags hold one of the three combinations in which they are
  not both true, neither is a key of \<open>defaults\<close>, and \<open>user_data\<close> carries settings
  keys only.
  \<open>flags_held a b\<close>: the two save flags hold the values \<open>a\<close> and \<open>b\<close>, with the same
  side conditions. \<open>is_save_response\<close> picks the save responses among the events.
\<close>

definition omits :: "string \<Rightarrow> obj option \<Rightarrow> bool" where
  "omits k inst = (case inst of None \<Rightarrow> True | Some kvs \<Rightarrow> k \<notin> set (map fst kvs))"


definition flags_held :: "jsval option \<Rightarrow> jsval option \<Rightarrow> model \<Rightarrow> bool" where
  "flags_held a b m =
     (props m ''saved'' = a \<and> props m ''save_failed'' = b \<and>
      map_of (defaults m) ''saved'' = None \<and> map_of (defaults m) ''save_failed'' = None \<and>
      keys_ok settings_key (user_data m))"

fun is_save_response :: "event \<Rightarrow> bool" where
  "is_save_response (SaveResponse result) = True"
| "is_save_response e = False"

section \<open>Example states\<close>

text \<open>
  A page with the form present and valid, no fragment and no user data, after \<open>init\<close>
  without autoload; the same page after switches were turned, after a successful and
  after a failed save; responses of the server; a short history of events and the state
  it ends in; and a fresh model that received a load response whose \<open>legacy\<close> object
  carries the keys \<open>saved\<close> and \<open>save_failed\<close>. \<open>toJSON0\<close> is a serialiser that
  ignores its argument.
\<close>

definition toJSON0 :: "(string \<rightharpoonup> jsval) \<Rightarrow> string" where
  "toJSON0 ps = ''{}''"

definition page0 :: model where
  "page0 = snd (init False (Some True) (new_model None ''/admin/settings'' ''token'' []))"

definition page_ldap_both :: model where
  "page_ldap_both =
     switchChange ''autoprovisioning'' True (switchChange ''ldap_sg_enabled'' True page0)"

definition page_no_auth :: model where
  "page_no_auth = switchChange ''local_db_enabled'' False page0"

definition page_ldap_only :: model where
  "page_ldap_only = switchChange ''ldap_enabled'' True page_no_auth"

definition page_saved :: model where
  "page_saved =
     snd (onDataSaved \<lparr>save_status = JNum 1, save_messages = JArr [], save_data = None\<rparr> page0)"

definition page_save_failed :: model where
  "page_save_failed =
     snd (onDataSaved
            \<lparr>save_status = JNum 0, save_messages = JArr [JStr ''failed''], save_data = None\<rparr> page0)"

definition load_failure :: load_result where
  "load_failure = \<lparr>status = JNum 0, messages = JArr [JStr ''denied''], payload = None\<rparr>"

definition load_success :: load_result where
  "load_success =
     \<lparr>status = JNum 1, messages = JArr [],
      payload = Some \<lparr>legacy = Some [(''ldap_enabled'', JBool True)],
                      settings_tree = JObj [(''a'', JNum 1)]\<rparr>\<rparr>"



definition later0 :: "obj option list" where
  "later0 = [Some [(''ldap_uri'', JStr ''ldap://example.org'')], None]"





text \<open>
  A save response that omits \<open>ldap_uri\<close>; the example page and a fresh model after an
  edit of a text field; and a history without a save response (an edit, a load and its
  response, a change of the fragment) with the state it leads to from the saved page.
\<close>

definition save_other :: save_result where
  "save_other =
     \<lparr>save_status = JNum 1, save_messages = JArr [],
      save_data = Some [(''ldap_enabled'', JBool True)]\<rparr>"

definition page_edited :: model where
  "page_edited = edit ''ldap_uri'' (JStr ''ldap://example.org'') True page0"

definition model_edited :: model where
  "model_edited = edit ''ldap_base_dn'' (JStr ''dc=example,dc=org'') True (new_model None [] [] [])"

definition quiet_events :: "event list" where
  "quiet_events =
     [Edit ''ldap_uri'' (JStr ''ldap://example.org'') True, Load, LoadResponse load_success,
      Navigate ''mail'']"

definition page_quiet :: model where
  "page_quiet =
     (obs_write ''loading'' (JBool False)
        (obs_write ''messages'' (JArr [])
          (obs_write ''messages_class'' (JStr ''info'')
            (obs_write ''settings'' (JObj [(''a'', JObs (JNum 1))])
              (update (Some [(''ldap_enabled'', JBool True)])
                (load (edit ''ldap_uri'' (JStr ''ldap://example.org'') True page_saved)))))))
     \<lparr>fragment := ''mail''\<rparr>"

section \<open>Objects, \<open>$.extend\<close> and \<open>update\<close>\<close>

lemma bind_err_simps [simp]:
  "bind_err (Inl e) f = Inl e" "bind_err (Inr x) f = f x"
  by (simp_all add: bind_err_def)

lemma map_of_set_prop: "map_of (set_prop k v kvs) = (map_of kvs)(k \<mapsto> v)"
  by (induction kvs) (auto simp: fun_eq_iff)

lemma keys_set_prop: "fst ` set (set_prop k v kvs) = insert k (fst ` set kvs)"
  by (simp add: dom_map_of_conv_image_fst[symmetric] map_of_set_prop)

lemma distinct_set_prop: "distinct (map fst kvs) \<Longrightarrow> distinct (map fst (set_prop k v kvs))"
  by (induction k v kvs rule: set_prop.induct) (auto simp: keys_set_prop)

lemma distinct_extend_loop:
  "distinct (map fst t) \<Longrightarrow> distinct (map fst (extend_loop t src))"
  by (induction t src rule: extend_loop.induct) (simp_all add: distinct_set_prop)

lemma map_of_extend_loop_other:
  "k \<notin> set (map fst src) \<Longrightarrow> map_of (extend_loop t src) k = map_of t k"
  by (induction t src rule: extend_loop.induct) (auto simp: map_of_set_prop)

lemma map_of_extend_loop_entry:
  "map_of src k = Some v \<Longrightarrow> distinct (map fst src) \<Longrightarrow> v \<noteq> JUndef \<Longrightarrow> k \<noteq> ''__proto__''
   \<Longrightarrow> map_of (extend_loop t src) k = Some v"
proof (induction t src rule: extend_loop.induct)
  case (1 t)
  then show ?case by simp
next
  case (2 t name copy rest)
  show ?case
  proof (cases "name = k")
    case True
    with 2 have "copy = v" and "k \<notin> set (map fst rest)" by auto
    with True 2 show ?thesis by (simp add: map_of_extend_loop_other map_of_set_prop)
  next
    case False
    with 2 show ?thesis by simp
  qed
qed

lemma update_loop_other: "k \<notin> set (map fst d) \<Longrightarrow> update_loop d ps k = ps k"
  by (induction d ps rule: update_loop.induct) (auto split: option.splits)

lemma update_loop_entry:
  "distinct (map fst d) \<Longrightarrow> map_of d k = Some v \<Longrightarrow> update_loop d ps k = Some v"
proof (induction d ps rule: update_loop.induct)
  case (1 ps)
  then show ?case by simp
next
  case (2 key val entries ps)
  show ?case
  proof (cases "key = k")
    case True
    with 2 have "val = v" and "k \<notin> set (map fst entries)" by auto
    with True show ?thesis by (simp add: update_loop_other split: option.splits)
  next
    case False
    with 2 show ?thesis by (simp split: option.splits)
  qed
qed

lemma update_loop_distinct:
  "distinct (map fst d) \<Longrightarrow>
   update_loop d ps k = (case map_of d k of None \<Rightarrow> ps k | Some v \<Rightarrow> Some v)"
proof (cases "map_of d k")
  case None
  then have "k \<notin> set (map fst d)"
    by (simp add: map_of_eq_None_iff)
  then have "update_loop d ps k = ps k"
    by (rule update_loop_other)
  with None show ?thesis by simp
next
  case (Some v)
  assume "distinct (map fst d)"
  then have "update_loop d ps k = Some v"
    using Some by (rule update_loop_entry)
  with Some show ?thesis by simp
qed

lemma defaults_update: "defaults (update inst m) = jq_extend (defaults m) inst"
  by (simp add: update_def Let_def)

lemma props_update:
  "props (update inst m) = update_loop (jq_extend (defaults m) inst) (props m)"
  by (simp add: update_def Let_def)

lemma user_data_update: "user_data (update inst m) = user_data m"
  by (simp add: update_def Let_def)

lemma distinct_jq_extend:
  "distinct (map fst d) \<Longrightarrow> distinct (map fst (jq_extend d inst))"
  by (simp add: jq_extend_def distinct_extend_loop split: option.splits)

lemma update_keeps_default:
  assumes "distinct (map fst (defaults m))" and "map_of (defaults m) k = Some v"
    and "case inst of None \<Rightarrow> True | Some kvs \<Rightarrow> k \<notin> set (map fst kvs)"
  shows "distinct (map fst (defaults (update inst m))) \<and>
         map_of (defaults (update inst m)) k = Some v \<and> props (update inst m) k = Some v"
proof -
  have d: "distinct (map fst (jq_extend (defaults m) inst))"
    using assms(1) by (rule distinct_jq_extend)
  have e: "map_of (jq_extend (defaults m) inst) k = Some v"
    using assms(2,3) by (auto simp: jq_extend_def map_of_extend_loop_other split: option.splits)
  show ?thesis
    using d e by (simp add: defaults_update props_update update_loop_entry)
qed

lemma updates_keep_default:
  "distinct (map fst (defaults m)) \<Longrightarrow> map_of (defaults m) k = Some v \<Longrightarrow>
   list_all (omits k) later \<Longrightarrow>
   map_of (defaults (foldl (\<lambda>s i. update i s) m later)) k = Some v \<and>
   (later \<noteq> [] \<longrightarrow> props (foldl (\<lambda>s i. update i s) m later) k = Some v)"
proof (induction later arbitrary: m)
  case Nil
  then show ?case by simp
next
  case (Cons i later)
  have s: "distinct (map fst (defaults (update i m))) \<and>
         map_of (defaults (update i m)) k = Some v \<and> props (update i m) k = Some v"
    using Cons.prems by (intro update_keeps_default) (auto simp: omits_def)
  show ?case
  proof (cases later)
    case Nil
    with s show ?thesis by simp
  next
    case (Cons j js)
    with Cons.IH[of "update i m"] s Cons.prems show ?thesis by simp
  qed
qed

lemma props_update_entry:
  assumes "distinct (map fst (defaults m))"
    and "distinct (map fst inst)" and "map_of inst k = Some v"
    and "v \<noteq> JUndef" and "k \<noteq> ''__proto__''"
  shows "distinct (map fst (defaults (update (Some inst) m))) \<and>
         map_of (defaults (update (Some inst) m)) k = Some v \<and>
         props (update (Some inst) m) k = Some v"
proof -
  let ?m1 = "update (Some inst) m"
  have d: "distinct (map fst (defaults ?m1))"
    using assms(1) by (simp add: defaults_update distinct_jq_extend)
  have e: "map_of (defaults ?m1) k = Some v"
    using assms(2-5) by (simp add: defaults_update jq_extend_def map_of_extend_loop_entry)
  have p: "props ?m1 k = Some v"
    using d e by (simp add: props_update defaults_update update_loop_entry)
  from d e p show ?thesis by simp
qed

lemma update_frame:
  assumes "omits k inst" and "map_of (defaults m) k = None"
  shows "map_of (defaults (update inst m)) k = None \<and> props (update inst m) k = props m k"
proof -
  have e: "map_of (jq_extend (defaults m) inst) k = None"
    using assms by (auto simp: jq_extend_def omits_def map_of_extend_loop_other split: option.splits)
  then have "k \<notin> set (map fst (jq_extend (defaults m) inst))"
    by (simp add: map_of_eq_None_iff)
  then have "update_loop (jq_extend (defaults m) inst) (props m) k = props m k"
    by (rule update_loop_other)
  with e show ?thesis by (simp add: defaults_update props_update)
qed

section \<open>The initial tables and the example page\<close>

lemma defaults0_distinct: "distinct (map fst defaults0)"
  by code_simp

lemma defaults0_builtin:
  "map_of defaults0 ''tabs'' = None" "map_of defaults0 ''tab_default'' = None"
  "map_of defaults0 ''tab_active'' = None" "map_of defaults0 ''saved'' = None"
  "map_of defaults0 ''save_failed'' = None" "map_of defaults0 ''saving'' = None"
  by code_simp+

lemma defaults0_toggles:
  "map_of defaults0 ''local_db_enabled'' = Some (JBool True)"
  "map_of defaults0 ''ldap_enabled'' = Some (JBool False)"
  "map_of defaults0 ''google_oauth_enabled'' = Some (JBool False)"
  "map_of defaults0 ''github_oauth_enabled'' = Some (JBool False)"
  "map_of defaults0 ''azure_oauth_enabled'' = Some (JBool False)"
  "map_of defaults0 ''oidc_oauth_enabled'' = Some (JBool False)"
  by code_simp+

lemma props0_builtin:
  "props0 ''tabs'' = Some (JArr tabs0)" "props0 ''tab_default'' = Some (JStr ''authentication'')"
  "props0 ''saved'' = Some (JBool False)" "props0 ''save_failed'' = Some (JBool False)"
  "props0 ''saving'' = Some (JBool False)"
  by (simp_all add: props0_def)

lemma tab_loop_tabs0_authentication:
  "tab_loop tabs0 ''authentication'' = Inr ''authentication/local''"
  by (simp add: tabs0_def get_prop_def strict_eq_def)

lemma page0_state:
  "page0 =
     \<lparr>props = (update_loop defaults0 props0)(''tab_active'' \<mapsto> JStr ''authentication/local''),
      defaults = defaults0, target = Some True, fragment = ''authentication/local'',
      hash_writes = [''authentication/local''], requests = [], user_data = None,
      api_url = ''/admin/settings'', csrf_token = ''token''\<rparr>"
  by (simp add: page0_def init_def new_model_def update_def jq_extend_def
      setupKnockoutBindings_def hasHash_def for_in_values_def location_hash_def activateDefaultTab_def
      activateTab_def obs_read_def obs_write_def set_hash_def strip_hash_def
      update_loop_distinct defaults0_distinct defaults0_builtin props0_builtin
      tab_loop_tabs0_authentication)

lemma page0_prop:
  "props page0 k =
     (if k = ''tab_active'' then Some (JStr ''authentication/local'')
      else case map_of defaults0 k of None \<Rightarrow> props0 k | Some v \<Rightarrow> Some v)"
  by (simp add: page0_state update_loop_distinct defaults0_distinct)

lemma page0_target: "target page0 = Some True"
  by (simp add: page0_state)

lemma page0_flags:
  "props page0 ''saved'' = Some (JBool False)" "props page0 ''save_failed'' = Some (JBool False)"
  by (simp_all add: page0_prop defaults0_builtin props0_builtin)

lemma page0_toggles:
  "props page0 ''local_db_enabled'' = Some (JBool True)"
  "props page0 ''ldap_enabled'' = Some (JBool False)"
  "props page0 ''google_oauth_enabled'' = Some (JBool False)"
  "props page0 ''github_oauth_enabled'' = Some (JBool False)"
  "props page0 ''azure_oauth_enabled'' = Some (JBool False)"
  "props page0 ''oidc_oauth_enabled'' = Some (JBool False)"
  by (simp_all add: page0_prop defaults0_toggles)

lemma page_no_auth_toggles:
  "props page_no_auth ''local_db_enabled'' = Some (JBool False) \<and>
   props page_no_auth ''ldap_enabled'' = Some (JBool False) \<and>
   props page_no_auth ''google_oauth_enabled'' = Some (JBool False) \<and>
   props page_no_auth ''github_oauth_enabled'' = Some (JBool False) \<and>
   props page_no_auth ''azure_oauth_enabled'' = Some (JBool False) \<and>
   props page_no_auth ''oidc_oauth_enabled'' = Some (JBool False)"
  by (simp add: page_no_auth_def switchChange_def obs_write_def page0_toggles)

lemma page_ldap_only_toggles:
  "props page_ldap_only ''local_db_enabled'' = Some (JBool False) \<and>
   props page_ldap_only ''ldap_enabled'' = Some (JBool True) \<and>
   props page_ldap_only ''google_oauth_enabled'' = Some (JBool False) \<and>
   props page_ldap_only ''github_oauth_enabled'' = Some (JBool False) \<and>
   props page_ldap_only ''azure_oauth_enabled'' = Some (JBool False) \<and>
   props page_ldap_only ''oidc_oauth_enabled'' = Some (JBool False)"
  by (simp add: page_ldap_only_def page_no_auth_def switchChange_def obs_write_def page0_toggles)

lemma page_saved_flags:
  "props page_saved ''saved'' = Some (JBool True)" "props page_saved ''save_failed'' = Some (JBool False)"
  by (simp_all add: page_saved_def onDataSaved_def strict_eq_def obs_write_def)

lemma page_save_failed_flags:
  "props page_save_failed ''saved'' = Some (JBool False)"
  "props page_save_failed ''save_failed'' = Some (JBool True)"
  by (simp_all add: page_save_failed_def onDataSaved_def strict_eq_def obs_write_def)

lemma props_edit:
  "props (edit key v verdict m) = (props m)(key \<mapsto> v)"
  by (simp add: edit_def onElementChanged_def obs_write_def split: option.splits)

lemma not_method_examples: "not_method ''ldap_enabled''" "not_method ''ldap_uri''"
  by (simp_all add: not_method_def method_names_def)



section \<open>Saving\<close>

text \<open>
  Claim C1. For every state with a bound form: when the form fails validation, \<open>save\<close>
  returns \<open>false\<close> and the state is the same, so no request was issued and no flag
  changed; when it passes, \<open>save\<close> sets \<open>saving\<close> and hands exactly one request to
  \<open>$.ajax\<close>, whose body has \<open>commit: 1\<close> and the JSON text of the whole view model as it
  is at that moment.
\<close>

theorem save_validation_gate:
  "(target m = Some False \<longrightarrow> save toJSON m = Inr (JBool False, m)) \<and>
   (target m = Some True \<longrightarrow>
      save toJSON m =
        Inr (JUndef,
             m\<lparr>props := (props m)(''saving'' \<mapsto> JBool True),
               requests := requests m @
                 [\<lparr>url = api_url m, csrf_token_sent = csrf_token m, commit = Some 1,
                   data = Some (toJSON ((props m)(''saving'' \<mapsto> JBool True)))\<rparr>]\<rparr>))"
  by (simp add: save_def obs_write_def Let_def)

theorem save_validation_gate_witness:
  "target page0 = Some True \<and>
   save toJSON0 page0 =
     Inr (JUndef,
          page0\<lparr>props := (props page0)(''saving'' \<mapsto> JBool True),
            requests := requests page0 @
              [\<lparr>url = api_url page0, csrf_token_sent = csrf_token page0, commit = Some 1,
                data = Some (toJSON0 ((props page0)(''saving'' \<mapsto> JBool True)))\<rparr>]\<rparr>) \<and>
   target (page0\<lparr>target := Some False\<rparr>) = Some False \<and>
   save toJSON0 (page0\<lparr>target := Some False\<rparr>) = Inr (JBool False, page0\<lparr>target := Some False\<rparr>)"
  using save_validation_gate [of page0 toJSON0]
    save_validation_gate [of "page0\<lparr>target := Some False\<rparr>" toJSON0] page0_target
  by simp

section \<open>The custom validation methods\<close>

lemma ldap_exclusive_is_strict:
  "props m ''ldap_sg_enabled'' = Some a \<Longrightarrow> props m ''autoprovisioning'' = Some b \<Longrightarrow>
   ldap_exclusive m = Inr (\<not> (a = JNum 1 \<and> b = JNum 1))"
  by (simp add: ldap_exclusive_def obs_read_def count_if_one_def strict_eq_def)

text \<open>
  Claim C2. The rule \<open>ldap_exclusive\<close> is attached to both \<open>ldap_sg_enabled\<close> and
  \<open>autoprovisioning\<close>, but it counts a flag only when it is strictly equal to the
  number \<open>1\<close>. On the page where both switches were turned on, both observables hold
  the boolean \<open>true\<close>, and the rule reports the form valid.
\<close>

theorem ldap_exclusive_accepts_both_true:
  "props page_ldap_both ''ldap_sg_enabled'' = Some (JBool True) \<and>
   props page_ldap_both ''autoprovisioning'' = Some (JBool True) \<and>
   truthy (JBool True) \<and>
   ldap_exclusive page_ldap_both = Inr True \<and>
   map_of rules ''ldap_sg_enabled'' = Some [Required Dep_ldap_enabled, Ldap_exclusive] \<and>
   map_of rules ''autoprovisioning'' = Some [Required Dep_ldap_enabled, Ldap_exclusive]"
proof -
  have a: "props page_ldap_both ''ldap_sg_enabled'' = Some (JBool True)"
    by (simp add: page_ldap_both_def switchChange_def obs_write_def)
  have b: "props page_ldap_both ''autoprovisioning'' = Some (JBool True)"
    by (simp add: page_ldap_both_def switchChange_def obs_write_def)
  have c: "ldap_exclusive page_ldap_both = Inr True"
    using ldap_exclusive_is_strict [OF a b] by simp
  have d: "map_of rules ''ldap_sg_enabled'' = Some [Required Dep_ldap_enabled, Ldap_exclusive]"
    by code_simp
  have e: "map_of rules ''autoprovisioning'' = Some [Required Dep_ldap_enabled, Ldap_exclusive]"
    by code_simp
  from a b c d e show ?thesis by simp
qed

text \<open>
  Claim C3. Where the six provider toggles are defined, \<open>auth_enabled\<close> is valid exactly
  when at least one of them is truthy, and the rule table attaches it to each of the six.
\<close>

theorem auth_enabled_iff:
  assumes "props m ''local_db_enabled'' = Some a" and "props m ''ldap_enabled'' = Some b"
    and "props m ''google_oauth_enabled'' = Some c" and "props m ''github_oauth_enabled'' = Some d"
    and "props m ''azure_oauth_enabled'' = Some e" and "props m ''oidc_oauth_enabled'' = Some f"
  shows "auth_enabled m =
           Inr (truthy a \<or> truthy b \<or> truthy c \<or> truthy d \<or> truthy e \<or> truthy f) \<and>
         map_of rules ''local_db_enabled'' = Some [Auth_enabled] \<and>
         map_of rules ''ldap_enabled'' = Some [Auth_enabled] \<and>
         map_of rules ''google_oauth_enabled'' = Some [Auth_enabled] \<and>
         map_of rules ''github_oauth_enabled'' = Some [Auth_enabled] \<and>
         map_of rules ''azure_oauth_enabled'' = Some [Auth_enabled] \<and>
         map_of rules ''oidc_oauth_enabled'' = Some [Auth_enabled]"
proof -
  have "auth_enabled m =
           Inr (truthy a \<or> truthy b \<or> truthy c \<or> truthy d \<or> truthy e \<or> truthy f)"
    using assms by (simp add: auth_enabled_def obs_read_def count_if_def)
  moreover have "map_of rules ''local_db_enabled'' = Some [Auth_enabled]"
    by code_simp
  moreover have "map_of rules ''ldap_enabled'' = Some [Auth_enabled]"
    by code_simp
  moreover have "map_of rules ''google_oauth_enabled'' = Some [Auth_enabled]"
    by code_simp
  moreover have "map_of rules ''github_oauth_enabled'' = Some [Auth_enabled]"
    by code_simp
  moreover have "map_of rules ''azure_oauth_enabled'' = Some [Auth_enabled]"
    by code_simp
  moreover have "map_of rules ''oidc_oauth_enabled'' = Some [Auth_enabled]"
    by code_simp
  ultimately show ?thesis by simp
qed

theorem auth_enabled_iff_witness:
  "auth_enabled page_no_auth = Inr False \<and> auth_enabled page_ldap_only = Inr True \<and>
   map_of rules ''oidc_oauth_enabled'' = Some [Auth_enabled]"
  using auth_enabled_iff [of page_no_auth "JBool False" "JBool False" "JBool False" "JBool False"
      "JBool False" "JBool False"]
    auth_enabled_iff [of page_ldap_only "JBool False" "JBool True" "JBool False" "JBool False"
      "JBool False" "JBool False"]
    page_no_auth_toggles page_ldap_only_toggles
  by simp

text \<open>
  Claim C8. The UUID rule accepts \<open>123e4567-e89b-12d3-a456-426614174000\<close> and \<open>42\<close>
  and rejects \<open>not-a-uuid\<close>.
\<close>

theorem uuid_examples:
  "uuid ''123e4567-e89b-12d3-a456-426614174000'' \<and> uuid ''42'' \<and> \<not> uuid ''not-a-uuid''"
  by code_simp

section \<open>Tab navigation\<close>

lemma activateTab_Inr:
  "activateTab tab m = Inr m' \<Longrightarrow> \<exists>p. m' = set_hash p (obs_write ''tab_active'' (JStr p) m)"
  by (auto simp: activateTab_def bind_err_def split: sum.splits if_splits)

lemma activateTab_mirrors:
  "activateTab tab m = Inr m' \<Longrightarrow>
   \<exists>p. props m' ''tab_active'' = Some (JStr p) \<and> fragment m' = strip_hash p"
  by (auto dest!: activateTab_Inr simp: set_hash_def obs_write_def)








section \<open>The load response\<close>

text \<open>
  Claim C6. On a response whose status is \<open>0\<close> the load handler stores the messages,
  sets the class \<open>danger\<close>, clears \<open>loading\<close> and leaves every other observable as it
  was; on any other status, with a payload that \<open>observe\<close> accepts, it takes the
  success path.
\<close>

theorem onDataLoaded_failure_keeps_fields:
  "(status result = JNum 0 \<longrightarrow>
      onDataLoaded result m =
        Inr (JBool False,
             m\<lparr>props := (props m)(''messages_class'' \<mapsto> JStr ''danger'',
                  ''messages'' \<mapsto> messages result, ''loading'' \<mapsto> JBool False)\<rparr>) \<and>
      (\<forall>k. k \<noteq> ''messages_class'' \<and> k \<noteq> ''messages'' \<and> k \<noteq> ''loading'' \<longrightarrow>
         map_sum id (\<lambda>(r, m'). props m' k) (onDataLoaded result m) = Inr (props m k))) \<and>
   (status result \<noteq> JNum 0 \<and> payload result = Some p \<and> \<not> observe_throws (settings_tree p) \<longrightarrow>
      onDataLoaded result m =
        Inr (JUndef,
             obs_write ''loading'' (JBool False)
               (obs_write ''messages'' (messages result)
                 (obs_write ''messages_class'' (JStr ''info'')
                   (obs_write ''settings'' (observe (settings_tree p))
                     (update (legacy p) m))))))"
  by (simp add: onDataLoaded_def strict_eq_def obs_write_def Let_def)

theorem onDataLoaded_failure_keeps_fields_witness:
  "status load_failure = JNum 0 \<and>
   onDataLoaded load_failure page0 =
     Inr (JBool False,
          page0\<lparr>props := (props page0)(''messages_class'' \<mapsto> JStr ''danger'',
               ''messages'' \<mapsto> JArr [JStr ''denied''], ''loading'' \<mapsto> JBool False)\<rparr>) \<and>
   map_sum id (\<lambda>(r, m'). props m' ''ldap_enabled'') (onDataLoaded load_failure page0) =
     Inr (Some (JBool False)) \<and>
   status load_success \<noteq> JNum 0 \<and>
   map_sum id (\<lambda>(r, m'). (r, props m' ''messages_class'', props m' ''loading'', props m' ''settings''))
     (onDataLoaded load_success page0) =
     Inr (JUndef, Some (JStr ''info''), Some (JBool False), Some (JObj [(''a'', JObs (JNum 1))]))"
  using onDataLoaded_failure_keeps_fields [of load_failure page0 undefined]
    onDataLoaded_failure_keeps_fields
      [of load_success page0 "\<lparr>legacy = Some [(''ldap_enabled'', JBool True)],
                      settings_tree = JObj [(''a'', JNum 1)]\<rparr>"]
  by (simp add: load_failure_def load_success_def obs_write_def page0_prop defaults0_toggles)

section \<open>The defaults table\<close>

lemma defaults_edit: "defaults (edit key v verdict m) = defaults m"
  by (simp add: edit_def onElementChanged_def obs_write_def split: option.splits)

lemma defaults0_ldap_texts:
  "map_of defaults0 ''ldap_uri'' = Some (JStr '''')"
  "map_of defaults0 ''ldap_base_dn'' = Some (JStr '''')"
  by code_simp+

lemma props_onDataSaved_other:
  "k \<noteq> ''saving'' \<Longrightarrow> k \<noteq> ''messages'' \<Longrightarrow> k \<noteq> ''messages_class'' \<Longrightarrow> k \<noteq> ''save_failed'' \<Longrightarrow>
   k \<noteq> ''saved'' \<Longrightarrow> save_status result \<noteq> JNum 0 \<Longrightarrow>
   props (snd (onDataSaved result m)) k = props (update (save_data result) m) k"
  by (simp add: onDataSaved_def strict_eq_def obs_write_def)

text \<open>
  Claim C10, as stated, at a concrete input: on the example page the user edits
  \<open>ldap_uri\<close>, a field no update has assigned; a successful save response whose \<open>data\<close>
  omits \<open>ldap_uri\<close> then puts the field back to its static default, the empty string.
\<close>

theorem edit_lost_at_save_response:
  "props page_edited ''ldap_uri'' = Some (JStr ''ldap://example.org'') \<and>
   map_of defaults0 ''ldap_uri'' = Some (JStr '''') \<and>
   omits ''ldap_uri'' (save_data save_other) \<and>
   props (snd (onDataSaved save_other page_edited)) ''ldap_uri'' = Some (JStr '''')"
proof -
  have a: "props page_edited ''ldap_uri'' = Some (JStr ''ldap://example.org'')"
    by (simp add: page_edited_def props_edit)
  have o: "omits ''ldap_uri'' (save_data save_other)"
    by (simp add: omits_def save_other_def)
  have d: "defaults page_edited = defaults0"
    by (simp add: page_edited_def defaults_edit page0_state)
  have "props (update (save_data save_other) page_edited) ''ldap_uri'' = Some (JStr '''')"
    using update_keeps_default [of page_edited "''ldap_uri''" "JStr ''''" "save_data save_other"] o
    by (simp add: d defaults0_distinct defaults0_ldap_texts omits_def)
  then have "props (snd (onDataSaved save_other page_edited)) ''ldap_uri'' = Some (JStr '''')"
    by (simp add: props_onDataSaved_other save_other_def)
  with a o show ?thesis by (simp add: defaults0_ldap_texts)
qed

text \<open>
  Claim C10, amended. \<open>update\<close> writes the entries of its argument into \<open>defaults\<close>
  itself; a key it assigned keeps that value in \<open>defaults\<close>, and every later update
  whose argument omits the key applies that value again, not the static default. Every
  update applies the whole of \<open>defaults\<close>: a key \<open>j\<close> of \<open>defaults\<close> that the arguments
  omit is set to its value in \<open>defaults\<close>, whatever its observable held before, so a
  field that no update assigned goes back to its static default.
\<close>

theorem update_reapplies_latest:
  assumes "distinct (map fst (defaults m))"
    and "distinct (map fst inst)" and "map_of inst k = Some v"
    and "v \<noteq> JUndef" and "k \<noteq> ''__proto__''"
    and "list_all (omits k) later"
    and "keys_ok not_method (Some inst)" and "list_all (keys_ok not_method) later"
    and "map_of (defaults m) j = Some d" and "omits j (Some inst)" and "list_all (omits j) later"
  shows "defaults (update (Some inst) m) = extend_loop (defaults m) inst \<and>
         map_of (defaults (update (Some inst) m)) k = Some v \<and>
         props (update (Some inst) m) k = Some v \<and>
         map_of (defaults (foldl (\<lambda>s i. update i s) (update (Some inst) m) later)) k = Some v \<and>
         props (foldl (\<lambda>s i. update i s) (update (Some inst) m) later) k = Some v \<and>
         props (update (Some inst) m) j = Some d \<and>
         props (foldl (\<lambda>s i. update i s) (update (Some inst) m) later) j = Some d"
proof -
  let ?m1 = "update (Some inst) m"
  have dep: "distinct (map fst (defaults ?m1)) \<and> map_of (defaults ?m1) k = Some v \<and>
    props ?m1 k = Some v"
    using assms(1-5) by (rule props_update_entry)
  then have d: "distinct (map fst (defaults ?m1))" and e: "map_of (defaults ?m1) k = Some v"
    and p: "props ?m1 k = Some v"
    by simp_all
  have l: "map_of (defaults (foldl (\<lambda>s i. update i s) ?m1 later)) k = Some v \<and>
   (later \<noteq> [] \<longrightarrow> props (foldl (\<lambda>s i. update i s) ?m1 later) k = Some v)"
    using d e assms(6) by (rule updates_keep_default)
  have pk: "props (foldl (\<lambda>s i. update i s) ?m1 later) k = Some v"
    using l p by (cases later) auto
  have "case Some inst of None \<Rightarrow> True | Some kvs \<Rightarrow> j \<notin> set (map fst kvs)"
    using assms(10) by (simp add: omits_def)
  with assms(1,9) have dj: "distinct (map fst (defaults ?m1)) \<and>
     map_of (defaults ?m1) j = Some d \<and> props ?m1 j = Some d"
    by (rule update_keeps_default)
  then have ej: "map_of (defaults ?m1) j = Some d" and pj: "props ?m1 j = Some d"
    by simp_all
  have lj: "map_of (defaults (foldl (\<lambda>s i. update i s) ?m1 later)) j = Some d \<and>
   (later \<noteq> [] \<longrightarrow> props (foldl (\<lambda>s i. update i s) ?m1 later) j = Some d)"
    using d ej assms(11) by (rule updates_keep_default)
  have pj': "props (foldl (\<lambda>s i. update i s) ?m1 later) j = Some d"
    using lj pj by (cases later) auto
  from e p l pk pj pj' show ?thesis by (simp add: defaults_update jq_extend_def)
qed

theorem update_reapplies_latest_witness:
  "distinct (map fst (defaults model_edited)) \<and>
   map_of (defaults model_edited) ''ldap_enabled'' = Some (JBool False) \<and>
   list_all (omits ''ldap_enabled'') later0 \<and>
   map_of (defaults (foldl (\<lambda>s i. update i s)
       (update (Some [(''ldap_enabled'', JBool True)]) model_edited) later0))
     ''ldap_enabled'' = Some (JBool True) \<and>
   props (foldl (\<lambda>s i. update i s)
       (update (Some [(''ldap_enabled'', JBool True)]) model_edited) later0)
     ''ldap_enabled'' = Some (JBool True) \<and>
   props model_edited ''ldap_base_dn'' = Some (JStr ''dc=example,dc=org'') \<and>
   map_of (defaults model_edited) ''ldap_base_dn'' = Some (JStr '''') \<and>
   list_all (omits ''ldap_base_dn'') later0 \<and>
   props (foldl (\<lambda>s i. update i s)
       (update (Some [(''ldap_enabled'', JBool True)]) model_edited) later0)
     ''ldap_base_dn'' = Some (JStr '''')"
proof -
  have dm: "defaults model_edited = defaults0"
    by (simp add: model_edited_def defaults_edit new_model_def)
  have a: "distinct (map fst (defaults model_edited))"
    by (simp add: dm defaults0_distinct)
  have b: "map_of (defaults model_edited) ''ldap_enabled'' = Some (JBool False)"
    by (simp add: dm defaults0_toggles)
  have c: "list_all (omits ''ldap_enabled'') later0"
    by (simp add: later0_def omits_def)
  have d: "keys_ok not_method (Some [(''ldap_enabled'', JBool True)])"
    by (simp add: keys_ok_def not_method_examples)
  have e: "list_all (keys_ok not_method) later0"
    by (simp add: later0_def keys_ok_def not_method_examples)
  have f: "props model_edited ''ldap_base_dn'' = Some (JStr ''dc=example,dc=org'')"
    by (simp add: model_edited_def props_edit)
  have g: "map_of (defaults model_edited) ''ldap_base_dn'' = Some (JStr '''')"
    by (simp add: dm defaults0_ldap_texts)
  have h: "list_all (omits ''ldap_base_dn'') later0"
    by (simp add: later0_def omits_def)
  have i: "omits ''ldap_base_dn'' (Some [(''ldap_enabled'', JBool True)])"
    by (simp add: omits_def)
  from a b c d e f g h i
    update_reapplies_latest [where m = model_edited
      and inst = "[(''ldap_enabled'', JBool True)]" and k = "''ldap_enabled''"
      and v = "JBool True" and later = later0 and j = "''ldap_base_dn''" and d = "JStr ''''"]
  show ?thesis by simp
qed

section \<open>Exclusiveness of the save flags\<close>

lemma settings_keys_omit:
  "keys_ok settings_key inst \<Longrightarrow> omits ''saved'' inst \<and> omits ''save_failed'' inst"
  by (auto simp: keys_ok_def omits_def settings_key_def list_all_iff split: option.splits)





















section \<open>The save flags\<close>

lemma flags_held_update:
  assumes "flags_held a b m" and "keys_ok settings_key inst"
  shows "flags_held a b (update inst m)"
proof -
  from assms(2) have o: "omits ''saved'' inst" "omits ''save_failed'' inst"
    by (simp_all add: settings_keys_omit)
  from assms(1) have n: "map_of (defaults m) ''saved'' = None" "map_of (defaults m) ''save_failed'' = None"
    by (simp_all add: flags_held_def)
  from update_frame [OF o(1) n(1)] update_frame [OF o(2) n(2)] assms(1)
  show ?thesis by (simp add: flags_held_def user_data_update)
qed

lemma flags_held_obs_write:
  "k \<noteq> ''saved'' \<Longrightarrow> k \<noteq> ''save_failed'' \<Longrightarrow> flags_held a b (obs_write k v m) = flags_held a b m"
  by (simp add: flags_held_def obs_write_def)

lemma flags_held_set_hash: "flags_held a b (set_hash p m) = flags_held a b m"
  by (simp add: flags_held_def set_hash_def)

lemma flags_held_activateTab: "flags_held a b m \<Longrightarrow> activateTab tab m = Inr m' \<Longrightarrow> flags_held a b m'"
  by (auto dest!: activateTab_Inr simp: flags_held_set_hash flags_held_obs_write)

lemma flags_held_activateDefaultTab:
  "flags_held a b m \<Longrightarrow> activateDefaultTab m = Inr m' \<Longrightarrow> flags_held a b m'"
  by (auto simp: activateDefaultTab_def bind_err_def dest: flags_held_activateTab
      split: sum.splits jsval.splits)

lemma flags_held_onHashChange: "flags_held a b m \<Longrightarrow> onHashChange m = Inr m' \<Longrightarrow> flags_held a b m'"
  by (auto simp: onHashChange_def Let_def
      dest: flags_held_activateTab flags_held_activateDefaultTab split: if_splits)

lemma flags_held_onTabClick:
  "flags_held a b m \<Longrightarrow> onTabClick tab parent m = Inr m' \<Longrightarrow> flags_held a b m'"
  by (auto simp: onTabClick_def Let_def dest: flags_held_activateTab)

lemma flags_held_onSubTabClick:
  "flags_held a b m \<Longrightarrow> onSubTabClick tab m = Inr m' \<Longrightarrow> flags_held a b m'"
  by (auto simp: onSubTabClick_def activateSubTab_def flags_held_set_hash flags_held_obs_write
      split: option.splits jsval.splits)

lemma flags_held_load: "flags_held a b m \<Longrightarrow> flags_held a b (load m)"
  by (simp add: load_def Let_def flags_held_def obs_write_def)

lemma flags_held_save: "flags_held a b m \<Longrightarrow> save toJSON m = Inr (r, m') \<Longrightarrow> flags_held a b m'"
  by (auto simp: save_def Let_def flags_held_def obs_write_def split: option.splits if_splits)

lemma flags_held_onDataLoaded:
  assumes "flags_held a b m" and "onDataLoaded result m = Inr (r, m')"
    and "event_ok settings_key (LoadResponse result)"
  shows "flags_held a b m'"
proof (cases "strict_eq (status result) (JNum 0)")
  case True
  with assms(2) have "m' = obs_write ''loading'' (JBool False)
               (obs_write ''messages'' (messages result)
                 (obs_write ''messages_class'' (JStr ''danger'') m))"
    by (auto simp: onDataLoaded_def)
  with assms(1) show ?thesis by (simp add: flags_held_obs_write)
next
  case False
  with assms(2) obtain p where p: "payload result = Some p"
    and m': "m' = obs_write ''loading'' (JBool False)
                       (obs_write ''messages'' (messages result)
                         (obs_write ''messages_class'' (JStr ''info'')
                           (obs_write ''settings'' (observe (settings_tree p))
                             (update (legacy p) m))))"
    by (auto simp: onDataLoaded_def Let_def split: option.splits if_splits)
  from assms(3) p have "keys_ok settings_key (legacy p)" by simp
  with assms(1) have "flags_held a b (update (legacy p) m)" by (rule flags_held_update)
  with m' show ?thesis by (simp add: flags_held_obs_write)
qed

lemma flags_held_edit:
  "flags_held a b m \<Longrightarrow> settings_key key \<Longrightarrow> flags_held a b (edit key v verdict m)"
  by (auto simp: edit_def onElementChanged_def flags_held_def obs_write_def settings_key_def
      split: option.splits)

lemma flags_held_init: "flags_held a b m \<Longrightarrow> flags_held a b (snd (init autoload form m))"
proof -
  assume i: "flags_held a b m"
  then have "keys_ok settings_key (user_data m)" by (simp add: flags_held_def)
  with i have "flags_held a b (update (user_data m) m)" by (rule flags_held_update)
  then have s: "flags_held a b (setupKnockoutBindings form (update (user_data m) m))"
    by (simp add: setupKnockoutBindings_def flags_held_def split: option.splits)
  show ?thesis
    using s
    by (auto simp: init_def Let_def flags_held_load
        dest: flags_held_activateTab flags_held_activateDefaultTab
        split: sum.splits option.splits if_splits)
qed

lemma flags_held_step:
  "flags_held a b m \<Longrightarrow> event_ok settings_key e \<Longrightarrow> \<not> is_save_response e \<Longrightarrow>
   step toJSON e m = Some m' \<Longrightarrow> flags_held a b m'"
proof (cases e)
  case (Init autoload form)
  assume "flags_held a b m" "step toJSON e m = Some m'"
  with Init flags_held_init [of a b m autoload form] show ?thesis
    by (auto split: prod.splits option.splits error.splits)
next
  case Load
  assume "flags_held a b m" "step toJSON e m = Some m'"
  with Load show ?thesis by (auto simp: flags_held_load)
next
  case (LoadResponse result)
  assume "flags_held a b m" "event_ok settings_key e" "step toJSON e m = Some m'"
  with LoadResponse show ?thesis
    by (auto simp: keep_def bind_err_def dest: flags_held_onDataLoaded
        split: sum.splits error.splits prod.splits)
next
  case SaveClick
  assume "flags_held a b m" "step toJSON e m = Some m'"
  with SaveClick show ?thesis
    by (auto simp: keep_def bind_err_def onSaveClick_def dest: flags_held_save
        split: sum.splits error.splits prod.splits)
next
  case (SaveResponse result)
  assume "\<not> is_save_response e"
  with SaveResponse show ?thesis by simp
next
  case (Edit key v verdict)
  assume "flags_held a b m" "event_ok settings_key e" "step toJSON e m = Some m'"
  with Edit show ?thesis by (auto simp: flags_held_edit)
next
  case (TabClick tab parent)
  assume "flags_held a b m" "step toJSON e m = Some m'"
  with TabClick show ?thesis
    by (auto simp: keep_def dest: flags_held_onTabClick split: sum.splits error.splits)
next
  case (SubTabClick tab)
  assume "flags_held a b m" "step toJSON e m = Some m'"
  with SubTabClick show ?thesis
    by (auto simp: keep_def dest: flags_held_onSubTabClick split: sum.splits error.splits)
next
  case HashChange
  assume "flags_held a b m" "step toJSON e m = Some m'"
  with HashChange show ?thesis
    by (auto simp: keep_def dest: flags_held_onHashChange split: sum.splits error.splits)
next
  case (Navigate frag)
  assume "flags_held a b m" "step toJSON e m = Some m'"
  with Navigate show ?thesis by (auto simp: flags_held_def)
qed

lemma flags_held_run:
  "flags_held a b m \<Longrightarrow> list_all (event_ok settings_key) evs \<Longrightarrow>
   \<not> list_ex is_save_response evs \<Longrightarrow> run toJSON evs m = Some m' \<Longrightarrow> flags_held a b m'"
proof (induction evs arbitrary: m)
  case Nil
  then show ?case by simp
next
  case (Cons e evs)
  from Cons.prems(4) obtain m1 where s: "step toJSON e m = Some m1"
    and r: "run toJSON evs m1 = Some m'"
    by (auto split: option.splits)
  from Cons.prems(1,2,3) s have "flags_held a b m1" by (auto dest: flags_held_step)
  with Cons.IH [of m1] Cons.prems(2,3) r show ?case by simp
qed

lemma page_saved_frame:
  "map_of (defaults page_saved) ''saved'' = None" "map_of (defaults page_saved) ''save_failed'' = None"
  "keys_ok settings_key (user_data page_saved)"
  by (simp_all add: page_saved_def onDataSaved_def strict_eq_def obs_write_def update_def
      jq_extend_def page0_state defaults0_builtin keys_ok_def)

lemma settings_key_examples: "settings_key ''ldap_uri''" "settings_key ''ldap_enabled''"
  by (simp_all add: settings_key_def not_method_examples)

lemma quiet_events_ok:
  "list_all (event_ok settings_key) quiet_events" "\<not> list_ex is_save_response quiet_events"
  by (simp_all add: quiet_events_def load_success_def keys_ok_def settings_key_examples)

lemma run_quiet_events: "run toJSON0 quiet_events page_saved = Some page_quiet"
  by (simp add: quiet_events_def page_quiet_def load_success_def onDataLoaded_def strict_eq_def
      keep_def)

text \<open>
  Claim C4, as stated, at a concrete input: after a successful save an edit of
  \<open>ldap_uri\<close> leaves \<open>saved\<close> true, and after a failed save it leaves \<open>save_failed\<close>
  true.
\<close>

theorem edit_keeps_save_flags_example:
  "props (edit ''ldap_uri'' (JStr ''ldap://example.org'') True page_saved) ''saved'' = Some (JBool True) \<and>
   props (edit ''ldap_uri'' (JStr ''ldap://example.org'') True page_save_failed) ''save_failed'' =
     Some (JBool True)"
  by (simp add: props_edit page_saved_flags page_save_failed_flags)

text \<open>
  Claim C4, amended. \<open>save\<close> on a valid form sets \<open>saving\<close> and leaves the two result
  flags; the save response handler clears \<open>saving\<close> and sets \<open>saved\<close> on success,
  \<open>save_failed\<close> on failure, and the other one to false; an edit of any other
  observable stores the new value whatever the flags are and leaves all three flags as
  they were; and through any history of events without a save response, whose update
  keys and edited keys are settings keys, \<open>saved\<close> and \<open>save_failed\<close> keep their values.
\<close>

theorem save_flags_change_only_at_responses:
  "(target m = Some True \<longrightarrow>
      map_sum id (\<lambda>(r, m'). (props m' ''saving'', props m' ''saved'', props m' ''save_failed''))
        (save toJSON m) =
      Inr (Some (JBool True), props m ''saved'', props m ''save_failed'')) \<and>
   props (snd (onDataSaved result m)) ''saving'' = Some (JBool False) \<and>
   props (snd (onDataSaved result m)) ''saved'' = Some (JBool (save_status result \<noteq> JNum 0)) \<and>
   props (snd (onDataSaved result m)) ''save_failed'' = Some (JBool (save_status result = JNum 0)) \<and>
   (key \<noteq> ''saving'' \<and> key \<noteq> ''saved'' \<and> key \<noteq> ''save_failed'' \<longrightarrow>
      props (edit key v verdict m) key = Some v \<and>
      props (edit key v verdict m) ''saving'' = props m ''saving'' \<and>
      props (edit key v verdict m) ''saved'' = props m ''saved'' \<and>
      props (edit key v verdict m) ''save_failed'' = props m ''save_failed'') \<and>
   (map_of (defaults m) ''saved'' = None \<and> map_of (defaults m) ''save_failed'' = None \<and>
    keys_ok settings_key (user_data m) \<and> list_all (event_ok settings_key) evs \<and>
    \<not> list_ex is_save_response evs \<and> run toJSON evs m = Some m' \<longrightarrow>
      props m' ''saved'' = props m ''saved'' \<and> props m' ''save_failed'' = props m ''save_failed'')"
proof -
  have steps: "target m = Some True \<longrightarrow>
      map_sum id (\<lambda>(r, m'). (props m' ''saving'', props m' ''saved'', props m' ''save_failed''))
        (save toJSON m) =
      Inr (Some (JBool True), props m ''saved'', props m ''save_failed'')"
    by (simp add: save_def obs_write_def Let_def)
  have resp: "props (snd (onDataSaved result m)) ''saving'' = Some (JBool False) \<and>
   props (snd (onDataSaved result m)) ''saved'' = Some (JBool (save_status result \<noteq> JNum 0)) \<and>
   props (snd (onDataSaved result m)) ''save_failed'' = Some (JBool (save_status result = JNum 0))"
    by (simp add: onDataSaved_def strict_eq_def obs_write_def)
  have ed: "key \<noteq> ''saving'' \<and> key \<noteq> ''saved'' \<and> key \<noteq> ''save_failed'' \<longrightarrow>
      props (edit key v verdict m) key = Some v \<and>
      props (edit key v verdict m) ''saving'' = props m ''saving'' \<and>
      props (edit key v verdict m) ''saved'' = props m ''saved'' \<and>
      props (edit key v verdict m) ''save_failed'' = props m ''save_failed''"
    by (simp add: props_edit)
  have tr: "map_of (defaults m) ''saved'' = None \<and> map_of (defaults m) ''save_failed'' = None \<and>
    keys_ok settings_key (user_data m) \<and> list_all (event_ok settings_key) evs \<and>
    \<not> list_ex is_save_response evs \<and> run toJSON evs m = Some m' \<longrightarrow>
      props m' ''saved'' = props m ''saved'' \<and> props m' ''save_failed'' = props m ''save_failed''"
  proof
    assume h: "map_of (defaults m) ''saved'' = None \<and> map_of (defaults m) ''save_failed'' = None \<and>
      keys_ok settings_key (user_data m) \<and> list_all (event_ok settings_key) evs \<and>
      \<not> list_ex is_save_response evs \<and> run toJSON evs m = Some m'"
    then have "flags_held (props m ''saved'') (props m ''save_failed'') m"
      by (simp add: flags_held_def)
    with h have "flags_held (props m ''saved'') (props m ''save_failed'') m'"
      by (blast intro: flags_held_run)
    then show "props m' ''saved'' = props m ''saved'' \<and> props m' ''save_failed'' = props m ''save_failed''"
      by (simp add: flags_held_def)
  qed
  from steps resp ed tr show ?thesis by blast
qed

theorem save_flags_change_only_at_responses_witness:
  "target page0 = Some True \<and>
   map_sum id (\<lambda>(r, m'). (props m' ''saving'', props m' ''saved'', props m' ''save_failed''))
        (save toJSON0 page0) =
      Inr (Some (JBool True), Some (JBool False), Some (JBool False)) \<and>
   props (edit ''ldap_uri'' (JStr ''ldap://example.org'') True page_saved) ''ldap_uri'' =
     Some (JStr ''ldap://example.org'') \<and>
   props (edit ''ldap_uri'' (JStr ''ldap://example.org'') True page_saved) ''saved'' = Some (JBool True) \<and>
   props (edit ''ldap_uri'' (JStr ''ldap://example.org'') True page_saved) ''save_failed'' =
     Some (JBool False) \<and>
   map_of (defaults page_saved) ''saved'' = None \<and>
   map_of (defaults page_saved) ''save_failed'' = None \<and>
   keys_ok settings_key (user_data page_saved) \<and>
   list_all (event_ok settings_key) quiet_events \<and>
   \<not> list_ex is_save_response quiet_events \<and>
   run toJSON0 quiet_events page_saved = Some page_quiet \<and>
   props page_quiet ''saved'' = Some (JBool True) \<and>
   props page_quiet ''save_failed'' = Some (JBool False)"
proof -
  note at_page0 = save_flags_change_only_at_responses
      [where m = page0 and toJSON = toJSON0 and key = "''ldap_uri''"
        and v = "JStr ''ldap://example.org''" and verdict = True]
  note at_saved = save_flags_change_only_at_responses
      [where m = page_saved and toJSON = toJSON0 and key = "''ldap_uri''"
        and v = "JStr ''ldap://example.org''" and verdict = True and evs = quiet_events
        and m' = page_quiet]
  have a: "map_sum id (\<lambda>(r, m'). (props m' ''saving'', props m' ''saved'', props m' ''save_failed''))
        (save toJSON0 page0) =
      Inr (Some (JBool True), Some (JBool False), Some (JBool False))"
    using at_page0 page0_target page0_flags by simp
  have b: "props (edit ''ldap_uri'' (JStr ''ldap://example.org'') True page_saved) ''ldap_uri'' =
     Some (JStr ''ldap://example.org'')"
    using at_saved by simp
  have c: "props (edit ''ldap_uri'' (JStr ''ldap://example.org'') True page_saved) ''saved'' =
     Some (JBool True)"
    using at_saved page_saved_flags by simp
  have d: "props (edit ''ldap_uri'' (JStr ''ldap://example.org'') True page_saved) ''save_failed'' =
     Some (JBool False)"
    using at_saved page_saved_flags by simp
  have e: "props page_quiet ''saved'' = Some (JBool True) \<and>
     props page_quiet ''save_failed'' = Some (JBool False)"
    using at_saved page_saved_frame quiet_events_ok run_quiet_events page_saved_flags by simp
  from page0_target a b c d e page_saved_frame quiet_events_ok run_quiet_events
  show ?thesis by simp
qed

end
